theory Spec2Isabelle
  imports Complex_Main "HOL-Library.Sublist"
begin

section \<open>JavaScript values and array operations used by the services\<close>

text \<open>
  The services are TypeScript classes that keep their records in arrays. Identifiers, page
  numbers and timestamps (milliseconds since the epoch) are modelled as \<open>int\<close>, prices
  and ratings as \<open>rat\<close>: the doubles of JavaScript are exact on the values the services
  meet (integers below \<open>2^53\<close>, comparisons of decimals). Strings are byte strings.

  A property that the validation pipe lets be absent or \<open>null\<close> is a \<open>jsval\<close>:
  \<open>Undefined\<close> for a property the object does not hold, \<open>Null\<close>, or a value of the
  declared type. A property of a query string, which cannot be \<open>null\<close>, is an \<open>option\<close>.
\<close>

datatype 'a jsval = Undefined | Null | Val 'a

datatype exception =
    NotFoundException string int
  | ConflictException string
  | UnauthorizedException string
  | BadRequestException
  | TypeError



text \<open>\<open>s.includes(t)\<close>: \<open>t\<close> occurs in \<open>s\<close> as a contiguous substring.\<close>

fun includes_str :: "string \<Rightarrow> string \<Rightarrow> bool" where
  "includes_str [] t = (t = [])"
| "includes_str (c # s) t = (prefix t (c # s) \<or> includes_str s t)"

text \<open>Truthiness: \<open>undefined\<close>, \<open>null\<close>, the empty string and \<open>0\<close> are falsy.\<close>

definition truthy_string :: "string jsval \<Rightarrow> bool" where
  "truthy_string v = (case v of Val t \<Rightarrow> t \<noteq> [] | _ \<Rightarrow> False)"

definition truthy_number :: "int option \<Rightarrow> bool" where
  "truthy_number v = (case v of None \<Rightarrow> False | Some n \<Rightarrow> n \<noteq> 0)"

text \<open>\<open>v || d\<close> on an optional number and on a string property.\<close>

definition js_or_number :: "int option \<Rightarrow> int \<Rightarrow> int" where
  "js_or_number v d = (case v of None \<Rightarrow> d | Some n \<Rightarrow> if n = 0 then d else n)"

definition js_or_string :: "string jsval \<Rightarrow> string jsval \<Rightarrow> string jsval" where
  "js_or_string v d = (if truthy_string v then v else d)"

text \<open>The text that a template literal \<open>`${v}`\<close> gives for a string property.\<close>

definition template :: "string jsval \<Rightarrow> string" where
  "template v = (case v of Val t \<Rightarrow> t | Null \<Rightarrow> ''null'' | Undefined \<Rightarrow> ''undefined'')"

text \<open>
  \<open>{...a, ...b}\<close> on one property: the value of \<open>b\<close> when \<open>b\<close> has the property,
  the value of \<open>a\<close> otherwise. \<open>spread\<close> is for a property that the model holds as an
  \<open>option\<close> in \<open>b\<close>, \<open>spread_val\<close> for one that is a \<open>jsval\<close>: a \<open>null\<close> in \<open>b\<close>
  replaces the value of \<open>a\<close>.
\<close>

definition spread :: "'a \<Rightarrow> 'a option \<Rightarrow> 'a" where
  "spread old v = (case v of None \<Rightarrow> old | Some x \<Rightarrow> x)"

definition spread_val :: "'a jsval \<Rightarrow> 'a jsval \<Rightarrow> 'a jsval" where
  "spread_val old v = (case v of Undefined \<Rightarrow> old | _ \<Rightarrow> v)"


text \<open>\<open>Array.prototype.findIndex\<close>: the first index whose element passes, or \<open>-1\<close>.\<close>

fun findIndex :: "('a \<Rightarrow> bool) \<Rightarrow> 'a list \<Rightarrow> int" where
  "findIndex P [] = - 1"
| "findIndex P (x # xs) =
     (if P x then 0 else (let i = findIndex P xs in if i = - 1 then - 1 else i + 1))"

text \<open>\<open>xs.splice(i, 1)\<close> for an index inside the array.\<close>

definition splice1 :: "'a list \<Rightarrow> nat \<Rightarrow> 'a list" where
  "splice1 xs i = take i xs @ drop (Suc i) xs"


text \<open>
  \<open>v.toLowerCase().includes(searchLower)\<close> on a string property: a \<open>TypeError\<close> when
  the property is \<open>null\<close> or \<open>undefined\<close>.
\<close>

definition lower_includes :: "(string \<Rightarrow> string) \<Rightarrow> string jsval \<Rightarrow> string \<Rightarrow> exception + bool" where
  "lower_includes lc v searchLower =
     (case v of Val t \<Rightarrow> Inr (includes_str (lc t) searchLower) | _ \<Rightarrow> Inl TypeError)"







definition IsDecimal_number :: "'a \<Rightarrow> bool" where
  "IsDecimal_number v = False"


definition IsOptional_val :: "('a \<Rightarrow> bool) \<Rightarrow> 'a jsval \<Rightarrow> bool" where
  "IsOptional_val P v = (case v of Val x \<Rightarrow> P x | _ \<Rightarrow> True)"

section \<open>Users: \<open>users/dto/user.dto.ts\<close> and \<open>users/users.service.ts\<close>\<close>

datatype UserRole = STUDENT | INSTRUCTOR | ADMIN

datatype UserStatus = ACTIVE | INACTIVE | SUSPENDED



text \<open>
  The fields of a record type are prefixed with a tag of the type (\<open>u_\<close> for
  \<open>UserResponseDto\<close>, \<open>cu_\<close> for \<open>CreateUserDto\<close>, \<open>qu_\<close> for \<open>QueryUserDto\<close>), since the
  source uses the same property names in several classes. The properties of a stored
  user that \<open>UpdateUserDto\<close> declares are \<open>jsval\<close>s: a \<open>PATCH\<close> can store \<open>null\<close> in them.
\<close>

record UserResponseDto =
  u_id :: int
  u_email :: string
  u_firstName :: "string jsval"
  u_lastName :: "string jsval"
  u_fullName :: string
  u_role :: UserRole
  u_status :: "UserStatus jsval"
  u_phone :: "string jsval"
  u_bio :: "string jsval"
  u_createdAt :: int
  u_updatedAt :: int

record CreateUserDto =
  cu_email :: string
  cu_password :: string
  cu_firstName :: string
  cu_lastName :: string
  cu_role :: UserRole
  cu_phone :: "string jsval"
  cu_bio :: "string jsval"

text \<open>
  The object that reaches \<open>UsersService.update\<close> as \<open>updateUserDto\<close>. The class
  \<open>UpdateUserDto\<close> declares \<open>firstName\<close>, \<open>lastName\<close>, \<open>phone\<close>, \<open>bio\<close> and \<open>status\<close>, each
  with \<open>@IsOptional()\<close>: each is absent (\<open>Undefined\<close>), \<open>null\<close> or a value of its type.
  The service spreads every own property of the object it is given, so the model keeps
  one optional field for each other property of a user record that such an object could
  carry. A property that the request body does not hold is absent from the object.
\<close>

record UserPatch =
  pu_id :: "int option"
  pu_email :: "string option"
  pu_firstName :: "string jsval"
  pu_lastName :: "string jsval"
  pu_fullName :: "string option"
  pu_role :: "UserRole option"
  pu_status :: "UserStatus jsval"
  pu_phone :: "string jsval"
  pu_bio :: "string jsval"
  pu_createdAt :: "int option"
  pu_updatedAt :: "int option"


record UsersService =
  users :: "UserResponseDto list"
  u_nextId :: int

text \<open>The state of a new \<open>UsersService\<close>: three seeded users, next identifier 4.\<close>

definition users_seed :: "UserResponseDto list" where
  "users_seed =
    [\<lparr>u_id = 1, u_email = ''admin@lms.com'', u_firstName = Val ''Admin'',
       u_lastName = Val ''User'', u_fullName = ''Admin User'', u_role = ADMIN,
       u_status = Val ACTIVE, u_phone = Val ''+1234567890'',
       u_bio = Val ''System Administrator'',
       u_createdAt = 1767225600000, u_updatedAt = 1767225600000\<rparr>,
     \<lparr>u_id = 2, u_email = ''instructor@lms.com'', u_firstName = Val ''Jane'',
       u_lastName = Val ''Smith'', u_fullName = ''Jane Smith'', u_role = INSTRUCTOR,
       u_status = Val ACTIVE, u_phone = Val ''+1234567891'',
       u_bio = Val ''Senior Instructor with 10+ years experience'',
       u_createdAt = 1768435200000, u_updatedAt = 1768435200000\<rparr>,
     \<lparr>u_id = 3, u_email = ''student@lms.com'', u_firstName = Val ''Bob'',
       u_lastName = Val ''Johnson'', u_fullName = ''Bob Johnson'', u_role = STUDENT,
       u_status = Val ACTIVE, u_phone = Undefined, u_bio = Undefined,
       u_createdAt = 1769904000000, u_updatedAt = 1769904000000\<rparr>]"

definition UsersService_new :: UsersService where
  "UsersService_new = \<lparr>users = users_seed, u_nextId = 4\<rparr>"




definition UsersService_findOne :: "UsersService \<Rightarrow> int \<Rightarrow> exception + UserResponseDto" where
  "UsersService_findOne s i =
     (case find (\<lambda>u. u_id u = i) (users s) of
        None \<Rightarrow> Inl (NotFoundException ''User'' i)
      | Some user \<Rightarrow> Inr user)"

definition UsersService_findByEmail :: "UsersService \<Rightarrow> string \<Rightarrow> UserResponseDto option" where
  "UsersService_findByEmail s e = find (\<lambda>u. u_email u = e) (users s)"

text \<open>
  \<open>create\<close> reads the clock twice (\<open>createdAt: new Date(), updatedAt: new Date()\<close>); the
  two readings are the parameters \<open>t1\<close> and \<open>t2\<close>. Every operation that changes the store
  returns its outcome together with the state it leaves.
\<close>

definition UsersService_create ::
  "UsersService \<Rightarrow> 'a CreateUserDto_scheme \<Rightarrow> int \<Rightarrow> int \<Rightarrow> (exception + UserResponseDto) \<times> UsersService" where
  "UsersService_create s createUserDto t1 t2 =
     (case UsersService_findByEmail s (cu_email createUserDto) of
        Some existingUser \<Rightarrow> (Inl (ConflictException ''User with this email already exists''), s)
      | None \<Rightarrow>
          (let newUser =
                 \<lparr>u_id = u_nextId s,
                  u_email = cu_email createUserDto,
                  u_firstName = Val (cu_firstName createUserDto),
                  u_lastName = Val (cu_lastName createUserDto),
                  u_fullName = cu_firstName createUserDto @ '' '' @ cu_lastName createUserDto,
                  u_role = cu_role createUserDto,
                  u_status = Val ACTIVE,
                  u_phone = cu_phone createUserDto,
                  u_bio = cu_bio createUserDto,
                  u_createdAt = t1,
                  u_updatedAt = t2\<rparr>
           in (Inr newUser, \<lparr>users = users s @ [newUser], u_nextId = u_nextId s + 1\<rparr>)))"

definition UsersService_update ::
  "UsersService \<Rightarrow> int \<Rightarrow> UserPatch \<Rightarrow> int \<Rightarrow> (exception + UserResponseDto) \<times> UsersService" where
  "UsersService_update s i updateUserDto now =
     (let userIndex = findIndex (\<lambda>u. u_id u = i) (users s)
      in if userIndex = - 1 then (Inl (NotFoundException ''User'' i), s)
         else
           (let old = users s ! nat userIndex;
                updatedUser =
                  \<lparr>u_id = spread (u_id old) (pu_id updateUserDto),
                   u_email = spread (u_email old) (pu_email updateUserDto),
                   u_firstName = spread_val (u_firstName old) (pu_firstName updateUserDto),
                   u_lastName = spread_val (u_lastName old) (pu_lastName updateUserDto),
                   u_fullName =
                     (if truthy_string (pu_firstName updateUserDto) \<or>
                         truthy_string (pu_lastName updateUserDto)
                      then template (js_or_string (pu_firstName updateUserDto) (u_firstName old)) @
                           '' '' @
                           template (js_or_string (pu_lastName updateUserDto) (u_lastName old))
                      else u_fullName old),
                   u_role = spread (u_role old) (pu_role updateUserDto),
                   u_status = spread_val (u_status old) (pu_status updateUserDto),
                   u_phone = spread_val (u_phone old) (pu_phone updateUserDto),
                   u_bio = spread_val (u_bio old) (pu_bio updateUserDto),
                   u_createdAt = spread (u_createdAt old) (pu_createdAt updateUserDto),
                   u_updatedAt = now\<rparr>
            in (Inr updatedUser, s\<lparr>users := (users s)[nat userIndex := updatedUser]\<rparr>)))"

definition UsersService_remove :: "UsersService \<Rightarrow> int \<Rightarrow> (exception + unit) \<times> UsersService" where
  "UsersService_remove s i =
     (let userIndex = findIndex (\<lambda>u. u_id u = i) (users s)
      in if userIndex = - 1 then (Inl (NotFoundException ''User'' i), s)
         else (Inr (), s\<lparr>users := splice1 (users s) (nat userIndex)\<rparr>))"

text \<open>
  The boundary of the users routes. \<open>main.ts\<close> installs a global
  \<open>ValidationPipe({ whitelist: true, forbidNonWhitelisted: true, transform: true })\<close>:
  a body or a query with a property that its DTO class does not declare, or with a
  declared property that fails one of its validators, is answered with
  \<open>400 Bad Request\<close> before the controller method runs. For \<open>UpdateUserDto\<close> the declared
  properties are \<open>firstName\<close>, \<open>lastName\<close>, \<open>phone\<close>, \<open>bio\<close> and \<open>status\<close>; a value of the
  declared type passes \<open>@IsString()\<close> or \<open>@IsEnum()\<close>, and \<open>@IsOptional()\<close> lets \<open>null\<close>
  pass.
\<close>

definition UpdateUserDto_whitelisted :: "UserPatch \<Rightarrow> bool" where
  "UpdateUserDto_whitelisted p =
     (pu_id p = None \<and> pu_email p = None \<and> pu_fullName p = None \<and> pu_role p = None \<and>
      pu_createdAt p = None \<and> pu_updatedAt p = None)"

definition UsersController_update ::
  "UsersService \<Rightarrow> int \<Rightarrow> UserPatch \<Rightarrow> int \<Rightarrow> (exception + UserResponseDto) \<times> UsersService" where
  "UsersController_update s i body now =
     (if UpdateUserDto_whitelisted body then UsersService_update s i body now
      else (Inl BadRequestException, s))"




text \<open>
  The requests that change the users store, as the controller hands them to the service,
  and the store after a sequence of them.
\<close>

datatype UsersRequest =
    PostUser CreateUserDto int int
  | PatchUser int UserPatch int
  | DeleteUser int

fun users_handle :: "UsersService \<Rightarrow> UsersRequest \<Rightarrow> UsersService" where
  "users_handle s (PostUser dto t1 t2) = snd (UsersService_create s dto t1 t2)"
| "users_handle s (PatchUser i body now) = snd (UsersController_update s i body now)"
| "users_handle s (DeleteUser i) = snd (UsersService_remove s i)"

definition users_run :: "UsersService \<Rightarrow> UsersRequest list \<Rightarrow> UsersService" where
  "users_run s rs = foldl users_handle s rs"

section \<open>Courses: \<open>courses/dto/course.dto.ts\<close> and \<open>courses/courses.service.ts\<close>\<close>

datatype CourseLevel = BEGINNER | INTERMEDIATE | ADVANCED

datatype CourseStatus = DRAFT | PUBLISHED | ARCHIVED



record Instructor =
  i_id :: int
  i_name :: string
  i_email :: string

text \<open>
  The properties of a stored course that \<open>UpdateCourseDto\<close> declares are \<open>jsval\<close>s: a
  \<open>PATCH\<close> can store \<open>null\<close> in them, and a draft handed to the service without a
  description leaves \<open>description\<close> undefined.
\<close>

record CourseResponseDto =
  c_id :: int
  c_title :: "string jsval"
  c_description :: "string jsval"
  c_level :: "CourseLevel jsval"
  c_duration :: "int jsval"
  c_price :: "rat jsval"
  c_status :: "CourseStatus jsval"
  c_instructor :: Instructor
  c_tags :: "string list jsval"
  c_rating :: rat
  c_enrolledStudents :: int
  c_createdAt :: int
  c_updatedAt :: int

text \<open>
  \<open>CreateCourseDto\<close> is an extensible record: \<open>CoursesService.create\<close> reads the seven
  properties below and ignores any other property of the object it is given.
  \<open>CreateCourseDtoWithStatus\<close> is such an object with a \<open>status\<close> property.
\<close>

record CreateCourseDto =
  cc_title :: string
  cc_description :: "string jsval"
  cc_level :: CourseLevel
  cc_duration :: int
  cc_price :: rat
  cc_instructorId :: "int option"
  cc_tags :: "string list option"

record CreateCourseDtoWithStatus = CreateCourseDto +
  cc_status :: CourseStatus

text \<open>
  The object that reaches \<open>CoursesService.update\<close>: \<open>UpdateCourseDto\<close> declares \<open>title\<close>,
  \<open>description\<close>, \<open>level\<close>, \<open>duration\<close>, \<open>price\<close>, \<open>status\<close> and \<open>tags\<close>, each with
  \<open>@IsOptional()\<close>; the other fields stand for properties that the class does not
  declare.
\<close>

record CoursePatch =
  pc_id :: "int option"
  pc_title :: "string jsval"
  pc_description :: "string jsval"
  pc_level :: "CourseLevel jsval"
  pc_duration :: "int jsval"
  pc_price :: "rat jsval"
  pc_status :: "CourseStatus jsval"
  pc_instructor :: "Instructor option"
  pc_tags :: "string list jsval"
  pc_rating :: "rat option"
  pc_enrolledStudents :: "int option"
  pc_createdAt :: "int option"
  pc_updatedAt :: "int option"


record CoursesService =
  courses :: "CourseResponseDto list"
  c_nextId :: int

definition jane_smith :: Instructor where
  "jane_smith = \<lparr>i_id = 2, i_name = ''Jane Smith'', i_email = ''instructor@lms.com''\<rparr>"

definition courses_seed :: "CourseResponseDto list" where
  "courses_seed =
    [\<lparr>c_id = 1, c_title = Val ''Complete NestJS Bootcamp'',
       c_description =
         Val ''Learn NestJS from scratch to advanced level with real-world projects'',
       c_level = Val BEGINNER, c_duration = Val 20, c_price = Val (9999 / 100),
       c_status = Val PUBLISHED, c_instructor = jane_smith,
       c_tags = Val [''nestjs'', ''backend'', ''typescript''],
       c_rating = 45 / 10, c_enrolledStudents = 150,
       c_createdAt = 1769904000000, c_updatedAt = 1770681600000\<rparr>,
     \<lparr>c_id = 2, c_title = Val ''Advanced TypeScript Patterns'',
       c_description = Val ''Master advanced TypeScript concepts and design patterns'',
       c_level = Val ADVANCED, c_duration = Val 15, c_price = Val (14999 / 100),
       c_status = Val PUBLISHED, c_instructor = jane_smith,
       c_tags = Val [''typescript'', ''advanced'', ''patterns''],
       c_rating = 48 / 10, c_enrolledStudents = 89,
       c_createdAt = 1768435200000, c_updatedAt = 1770249600000\<rparr>,
     \<lparr>c_id = 3, c_title = Val ''React Fundamentals'',
       c_description = Val ''Build modern web applications with React'',
       c_level = Val BEGINNER, c_duration = Val 12, c_price = Val (7999 / 100),
       c_status = Val PUBLISHED, c_instructor = jane_smith,
       c_tags = Val [''react'', ''frontend'', ''javascript''],
       c_rating = 43 / 10, c_enrolledStudents = 230,
       c_createdAt = 1768867200000, c_updatedAt = 1770508800000\<rparr>]"

definition CoursesService_new :: CoursesService where
  "CoursesService_new = \<lparr>courses = courses_seed, c_nextId = 4\<rparr>"




definition CoursesService_findOne :: "CoursesService \<Rightarrow> int \<Rightarrow> exception + CourseResponseDto" where
  "CoursesService_findOne s i =
     (case find (\<lambda>c. c_id c = i) (courses s) of
        None \<Rightarrow> Inl (NotFoundException ''Course'' i)
      | Some course \<Rightarrow> Inr course)"

definition CoursesService_create ::
  "CoursesService \<Rightarrow> 'a CreateCourseDto_scheme \<Rightarrow> int \<Rightarrow> int \<Rightarrow> CourseResponseDto \<times> CoursesService" where
  "CoursesService_create s createCourseDto t1 t2 =
     (let newCourse =
            \<lparr>c_id = c_nextId s,
             c_title = Val (cc_title createCourseDto),
             c_description = cc_description createCourseDto,
             c_level = Val (cc_level createCourseDto),
             c_duration = Val (cc_duration createCourseDto),
             c_price = Val (cc_price createCourseDto),
             c_status = Val DRAFT,
             c_instructor =
               \<lparr>i_id = js_or_number (cc_instructorId createCourseDto) 2,
                i_name = ''Jane Smith'',
                i_email = ''instructor@lms.com''\<rparr>,
             c_tags = Val (case cc_tags createCourseDto of None \<Rightarrow> [] | Some ts \<Rightarrow> ts),
             c_rating = 0,
             c_enrolledStudents = 0,
             c_createdAt = t1,
             c_updatedAt = t2\<rparr>
      in (newCourse, \<lparr>courses = courses s @ [newCourse], c_nextId = c_nextId s + 1\<rparr>))"

definition CoursesService_update ::
  "CoursesService \<Rightarrow> int \<Rightarrow> CoursePatch \<Rightarrow> int \<Rightarrow> (exception + CourseResponseDto) \<times> CoursesService" where
  "CoursesService_update s i updateCourseDto now =
     (let courseIndex = findIndex (\<lambda>c. c_id c = i) (courses s)
      in if courseIndex = - 1 then (Inl (NotFoundException ''Course'' i), s)
         else
           (let old = courses s ! nat courseIndex;
                updatedCourse =
                  \<lparr>c_id = spread (c_id old) (pc_id updateCourseDto),
                   c_title = spread_val (c_title old) (pc_title updateCourseDto),
                   c_description = spread_val (c_description old) (pc_description updateCourseDto),
                   c_level = spread_val (c_level old) (pc_level updateCourseDto),
                   c_duration = spread_val (c_duration old) (pc_duration updateCourseDto),
                   c_price = spread_val (c_price old) (pc_price updateCourseDto),
                   c_status = spread_val (c_status old) (pc_status updateCourseDto),
                   c_instructor = spread (c_instructor old) (pc_instructor updateCourseDto),
                   c_tags = spread_val (c_tags old) (pc_tags updateCourseDto),
                   c_rating = spread (c_rating old) (pc_rating updateCourseDto),
                   c_enrolledStudents =
                     spread (c_enrolledStudents old) (pc_enrolledStudents updateCourseDto),
                   c_createdAt = spread (c_createdAt old) (pc_createdAt updateCourseDto),
                   c_updatedAt = now\<rparr>
            in (Inr updatedCourse, s\<lparr>courses := (courses s)[nat courseIndex := updatedCourse]\<rparr>)))"

definition CoursesService_remove :: "CoursesService \<Rightarrow> int \<Rightarrow> (exception + unit) \<times> CoursesService" where
  "CoursesService_remove s i =
     (let courseIndex = findIndex (\<lambda>c. c_id c = i) (courses s)
      in if courseIndex = - 1 then (Inl (NotFoundException ''Course'' i), s)
         else (Inr (), s\<lparr>courses := splice1 (courses s) (nat courseIndex)\<rparr>))"

text \<open>
  The boundary of \<open>PATCH /courses/:id\<close>, with the same global pipe. A value of the
  declared type passes the validators of \<open>title\<close>, \<open>description\<close>, \<open>level\<close>, \<open>duration\<close>,
  \<open>status\<close> and \<open>tags\<close>. \<open>price\<close> carries \<open>@IsDecimal()\<close> and \<open>@Type(() => Number)\<close>: the
  validator is given a number and refuses it, so only an absent or \<open>null\<close> price passes.
\<close>

definition UpdateCourseDto_whitelisted :: "CoursePatch \<Rightarrow> bool" where
  "UpdateCourseDto_whitelisted p =
     (pc_id p = None \<and> pc_instructor p = None \<and> pc_rating p = None \<and>
      pc_enrolledStudents p = None \<and> pc_createdAt p = None \<and> pc_updatedAt p = None)"

definition UpdateCourseDto_valid :: "CoursePatch \<Rightarrow> bool" where
  "UpdateCourseDto_valid p =
     (UpdateCourseDto_whitelisted p \<and> IsOptional_val IsDecimal_number (pc_price p))"

definition CoursesController_update ::
  "CoursesService \<Rightarrow> int \<Rightarrow> CoursePatch \<Rightarrow> int \<Rightarrow> (exception + CourseResponseDto) \<times> CoursesService" where
  "CoursesController_update s i body now =
     (if UpdateCourseDto_valid body then CoursesService_update s i body now
      else (Inl BadRequestException, s))"




datatype CoursesRequest =
    PostCourse CreateCourseDto int int
  | PatchCourse int CoursePatch int
  | DeleteCourse int

fun courses_handle :: "CoursesService \<Rightarrow> CoursesRequest \<Rightarrow> CoursesService" where
  "courses_handle s (PostCourse dto t1 t2) = snd (CoursesService_create s dto t1 t2)"
| "courses_handle s (PatchCourse i body now) = snd (CoursesController_update s i body now)"
| "courses_handle s (DeleteCourse i) = snd (CoursesService_remove s i)"

definition courses_run :: "CoursesService \<Rightarrow> CoursesRequest list \<Rightarrow> CoursesService" where
  "courses_run s rs = foldl courses_handle s rs"

section \<open>Authentication: \<open>auth/auth.service.ts\<close>\<close>

record DemoUser =
  du_email :: string
  du_password :: string
  du_id :: int
  du_name :: string
  du_role :: string

record LoginDto =
  ld_email :: string
  ld_password :: string

record JwtPayload =
  jp_email :: string
  jp_sub :: int
  jp_role :: string

record LoginUser =
  lu_id :: int
  lu_email :: string
  lu_name :: string
  lu_role :: string

record LoginResponseDto =
  lr_access_token :: string
  lr_token_type :: string
  lr_expires_in :: int
  lr_user :: LoginUser

definition demoUsers :: "DemoUser list" where
  "demoUsers =
    [\<lparr>du_email = ''user@example.com'', du_password = ''password123'', du_id = 1,
       du_name = ''John Doe'', du_role = ''student''\<rparr>,
     \<lparr>du_email = ''admin@lms.com'', du_password = ''admin123'', du_id = 2,
       du_name = ''Admin User'', du_role = ''admin''\<rparr>,
     \<lparr>du_email = ''instructor@lms.com'', du_password = ''instructor123'', du_id = 3,
       du_name = ''Jane Smith'', du_role = ''instructor''\<rparr>]"

text \<open>
  \<open>jwtService.sign\<close> belongs to the library \<open>@nestjs/jwt\<close>; it is the parameter \<open>sign\<close>,
  which turns the claims into the token string.
\<close>

definition AuthService_login ::
  "(JwtPayload \<Rightarrow> string) \<Rightarrow> 'a LoginDto_scheme \<Rightarrow> exception + LoginResponseDto" where
  "AuthService_login sign loginDto =
     (case find (\<lambda>u. du_email u = ld_email loginDto \<and> du_password u = ld_password loginDto)
             demoUsers of
        None \<Rightarrow> Inl (UnauthorizedException ''Invalid credentials'')
      | Some u \<Rightarrow>
          (let payload = \<lparr>jp_email = du_email u, jp_sub = du_id u, jp_role = du_role u\<rparr>
           in Inr \<lparr>lr_access_token = sign payload,
                   lr_token_type = ''Bearer'',
                   lr_expires_in = 604800,
                   lr_user = \<lparr>lu_id = du_id u, lu_email = du_email u, lu_name = du_name u,
                              lu_role = du_role u\<rparr>\<rparr>))"

section \<open>Reference notions of the specification\<close>










section \<open>What the guards of the code let through\<close>






section \<open>Example inputs\<close>

text \<open>Two drafts with the same new email, and a draft with the email of a seeded user.\<close>

definition ann :: CreateUserDto where
  "ann = \<lparr>cu_email = ''ann@lms.com'', cu_password = ''SecurePass123!'', cu_firstName = ''Ann'',
          cu_lastName = ''Lee'', cu_role = STUDENT, cu_phone = Undefined, cu_bio = Undefined\<rparr>"

definition ann_again :: CreateUserDto where
  "ann_again = \<lparr>cu_email = ''ann@lms.com'', cu_password = ''another-secret'', cu_firstName = ''Anna'',
          cu_lastName = ''Li'', cu_role = INSTRUCTOR, cu_phone = Undefined, cu_bio = Undefined\<rparr>"

definition admin_again :: CreateUserDto where
  "admin_again = \<lparr>cu_email = ''admin@lms.com'', cu_password = ''SecurePass123!'',
          cu_firstName = ''Second'', cu_lastName = ''Admin'', cu_role = ADMIN,
          cu_phone = Undefined, cu_bio = Undefined\<rparr>"

text \<open>
  The course draft of the specification's scenario, which has no description, and the
  same draft carrying a \<open>status\<close> property and the identifier of a seeded student as
  \<open>instructorId\<close>.
\<close>

definition draft_X :: CreateCourseDto where
  "draft_X = \<lparr>cc_title = ''X'', cc_description = Undefined, cc_level = BEGINNER,
              cc_duration = 5, cc_price = 10, cc_instructorId = None, cc_tags = None\<rparr>"

definition draft_X_published :: CreateCourseDtoWithStatus where
  "draft_X_published =
     \<lparr>cc_title = ''X'', cc_description = Undefined, cc_level = BEGINNER, cc_duration = 5,
      cc_price = 10, cc_instructorId = Some 3, cc_tags = None, cc_status = PUBLISHED\<rparr>"

text \<open>
  Patch objects: the empty one, and patches with a single property. \<open>id\<close> and \<open>rating\<close>
  are properties that \<open>UpdateUserDto\<close> and \<open>UpdateCourseDto\<close> do not declare.
\<close>

definition no_patch :: UserPatch where
  "no_patch = \<lparr>pu_id = None, pu_email = None, pu_firstName = Undefined,
               pu_lastName = Undefined, pu_fullName = None, pu_role = None,
               pu_status = Undefined, pu_phone = Undefined, pu_bio = Undefined,
               pu_createdAt = None, pu_updatedAt = None\<rparr>"

definition no_course_patch :: CoursePatch where
  "no_course_patch = \<lparr>pc_id = None, pc_title = Undefined, pc_description = Undefined,
      pc_level = Undefined, pc_duration = Undefined, pc_price = Undefined,
      pc_status = Undefined, pc_instructor = None, pc_tags = Undefined, pc_rating = None,
      pc_enrolledStudents = None, pc_createdAt = None, pc_updatedAt = None\<rparr>"

definition patch_phone :: UserPatch where
  "patch_phone = no_patch\<lparr>pu_phone := Val ''+15550100''\<rparr>"





definition patch_archive :: CoursePatch where
  "patch_archive = no_course_patch\<lparr>pc_status := Val ARCHIVED\<rparr>"






















section \<open>Invariant of the stores\<close>

text \<open>
  The identifiers in a store are distinct and below the next-id counter. An identifier is
  gone when it is below the counter and not in the store.
\<close>

definition ids_inv :: "int list \<Rightarrow> int \<Rightarrow> bool" where
  "ids_inv ids n = (distinct ids \<and> (\<forall>x\<in>set ids. x < n))"

definition id_gone :: "int \<Rightarrow> int list \<Rightarrow> int \<Rightarrow> bool" where
  "id_gone j ids n = (j < n \<and> j \<notin> set ids)"

definition users_inv :: "UsersService \<Rightarrow> bool" where
  "users_inv s = ids_inv (map u_id (users s)) (u_nextId s)"

definition users_gone :: "int \<Rightarrow> UsersService \<Rightarrow> bool" where
  "users_gone j s = id_gone j (map u_id (users s)) (u_nextId s)"

definition courses_inv :: "CoursesService \<Rightarrow> bool" where
  "courses_inv s = ids_inv (map c_id (courses s)) (c_nextId s)"

definition courses_gone :: "int \<Rightarrow> CoursesService \<Rightarrow> bool" where
  "courses_gone j s = id_gone j (map c_id (courses s)) (c_nextId s)"

section \<open>Array operations\<close>

lemma findIndex_ge: "- 1 \<le> findIndex P xs"
  by (induction xs) (auto simp: Let_def)

lemma findIndex_none_iff: "findIndex P xs = - 1 \<longleftrightarrow> (\<forall>x\<in>set xs. \<not> P x)"
proof (induction xs)
  case Nil
  then show ?case by simp
next
  case (Cons a xs)
  have "- 1 \<le> findIndex P xs" by (rule findIndex_ge)
  with Cons show ?case by (auto simp: Let_def)
qed

lemma findIndex_found:
  "findIndex P xs \<noteq> - 1 \<Longrightarrow>
     0 \<le> findIndex P xs \<and> nat (findIndex P xs) < length xs \<and> P (xs ! nat (findIndex P xs))
     \<and> find P xs = Some (xs ! nat (findIndex P xs))"
proof (induction xs)
  case Nil
  then show ?case by simp
next
  case (Cons a xs)
  show ?case
  proof (cases "P a")
    case True
    then show ?thesis by simp
  next
    case False
    with Cons.prems have ne: "findIndex P xs \<noteq> - 1" by (auto simp: Let_def split: if_splits)
    from Cons.IH [OF ne] False ne show ?thesis
      by (auto simp: Let_def nat_add_distrib)
  qed
qed






section \<open>The filter stage is one pass with the conjunction of the filters\<close>


lemma lower_includes_cases:
  "lower_includes lc v sl =
     (case v of Val t \<Rightarrow> Inr (includes_str (lc t) sl) | _ \<Rightarrow> Inl TypeError)"
  by (simp add: lower_includes_def)












lemmas eval_users = UsersService_new_def users_seed_def
lemmas eval_courses = CoursesService_new_def courses_seed_def jane_smith_def



section \<open>Listing: filtered total and page slice\<close>






section \<open>Email uniqueness on create\<close>

lemma UsersService_create_conflict:
  "cu_email d \<in> u_email ` set (users s) \<Longrightarrow>
   UsersService_create s d t1 t2 =
     (Inl (ConflictException ''User with this email already exists''), s)"
proof -
  assume "cu_email d \<in> u_email ` set (users s)"
  then have "find (\<lambda>u. u_email u = cu_email d) (users s) \<noteq> None"
    by (auto simp: find_None_iff)
  then show ?thesis
    by (auto simp: UsersService_create_def UsersService_findByEmail_def)
qed

lemma UsersService_create_fresh:
  assumes "cu_email d \<notin> u_email ` set (users s)"
  shows "\<exists>u. UsersService_create s d t1 t2 =
           (Inr u, \<lparr>users = users s @ [u], u_nextId = u_nextId s + 1\<rparr>) \<and>
         u_id u = u_nextId s \<and> u_email u = cu_email d"
proof -
  from assms have "find (\<lambda>u. u_email u = cu_email d) (users s) = None"
    by (force simp: find_None_iff)
  then show ?thesis
    by (simp add: UsersService_create_def UsersService_findByEmail_def Let_def)
qed

text \<open>
  C3. In every state of the user store, \<open>create\<close> with the email of an existing user
  fails with \<open>ConflictException\<close> and leaves the store and the next-id counter as they
  were. So of two \<open>create\<close> calls with the same email, not yet in the store, the first
  succeeds and the second fails with \<open>ConflictException\<close>, in either order of the two.
\<close>

theorem C3_create_email_conflict:
  fixes s :: UsersService and d1 d2 :: CreateUserDto
  shows
    "(cu_email d1 \<in> u_email ` set (users s) \<longrightarrow>
        UsersService_create s d1 t1 t2 =
          (Inl (ConflictException ''User with this email already exists''), s)) \<and>
     (cu_email d1 \<notin> u_email ` set (users s) \<and> cu_email d2 = cu_email d1 \<longrightarrow>
        (\<exists>u1 s1. UsersService_create s d1 t1 t2 = (Inr u1, s1) \<and>
           UsersService_create s1 d2 t3 t4 =
             (Inl (ConflictException ''User with this email already exists''), s1)) \<and>
        (\<exists>u2 s2. UsersService_create s d2 t1 t2 = (Inr u2, s2) \<and>
           UsersService_create s2 d1 t3 t4 =
             (Inl (ConflictException ''User with this email already exists''), s2)))"
proof (intro conjI impI)
  assume "cu_email d1 \<in> u_email ` set (users s)"
  then show "UsersService_create s d1 t1 t2 =
      (Inl (ConflictException ''User with this email already exists''), s)"
    by (rule UsersService_create_conflict)
next
  assume a: "cu_email d1 \<notin> u_email ` set (users s) \<and> cu_email d2 = cu_email d1"
  then obtain u1 where u1: "UsersService_create s d1 t1 t2 =
      (Inr u1, \<lparr>users = users s @ [u1], u_nextId = u_nextId s + 1\<rparr>)" "u_email u1 = cu_email d1"
    using UsersService_create_fresh [of d1 s t1 t2] by blast
  have "cu_email d2 \<in> u_email ` set (users \<lparr>users = users s @ [u1], u_nextId = u_nextId s + 1\<rparr>)"
    using a u1(2) by simp
  from UsersService_create_conflict [OF this] u1(1)
  show "\<exists>u1 s1. UsersService_create s d1 t1 t2 = (Inr u1, s1) \<and>
           UsersService_create s1 d2 t3 t4 =
             (Inl (ConflictException ''User with this email already exists''), s1)"
    by blast
next
  assume a: "cu_email d1 \<notin> u_email ` set (users s) \<and> cu_email d2 = cu_email d1"
  then have "cu_email d2 \<notin> u_email ` set (users s)" by simp
  then obtain u2 where u2: "UsersService_create s d2 t1 t2 =
      (Inr u2, \<lparr>users = users s @ [u2], u_nextId = u_nextId s + 1\<rparr>)" "u_email u2 = cu_email d2"
    using UsersService_create_fresh [of d2 s t1 t2] by blast
  have "cu_email d1 \<in> u_email ` set (users \<lparr>users = users s @ [u2], u_nextId = u_nextId s + 1\<rparr>)"
    using a u2(2) by simp
  from UsersService_create_conflict [OF this] u2(1)
  show "\<exists>u2 s2. UsersService_create s d2 t1 t2 = (Inr u2, s2) \<and>
           UsersService_create s2 d1 t3 t4 =
             (Inl (ConflictException ''User with this email already exists''), s2)"
    by blast
qed

theorem C3_create_email_conflict_witness:
  "UsersService_create UsersService_new admin_again 5 6 =
     (Inl (ConflictException ''User with this email already exists''), UsersService_new) \<and>
   (\<exists>u1 s1. UsersService_create UsersService_new ann 5 6 = (Inr u1, s1) \<and>
       UsersService_create s1 ann_again 7 8 =
         (Inl (ConflictException ''User with this email already exists''), s1)) \<and>
   (\<exists>u2 s2. UsersService_create UsersService_new ann_again 5 6 = (Inr u2, s2) \<and>
       UsersService_create s2 ann 7 8 =
         (Inl (ConflictException ''User with this email already exists''), s2))"
proof -
  have old: "cu_email admin_again \<in> u_email ` set (users UsersService_new)"
    by (simp add: admin_again_def eval_users)
  have new: "cu_email ann \<notin> u_email ` set (users UsersService_new) \<and>
      cu_email ann_again = cu_email ann"
    by (simp add: ann_def ann_again_def eval_users)
  from C3_create_email_conflict [of admin_again UsersService_new 5 6 ann 7 8] old
    C3_create_email_conflict [of ann UsersService_new 5 6 ann_again 7 8] new
  show ?thesis by blast
qed


section \<open>Login\<close>

lemma AuthService_login_cases:
  "(case find (\<lambda>u. du_email u = ld_email dto \<and> du_password u = ld_password dto) demoUsers of
      None \<Rightarrow> AuthService_login sign dto = Inl (UnauthorizedException ''Invalid credentials'')
    | Some u \<Rightarrow> AuthService_login sign dto =
        Inr \<lparr>lr_access_token = sign \<lparr>jp_email = du_email u, jp_sub = du_id u, jp_role = du_role u\<rparr>,
             lr_token_type = ''Bearer'', lr_expires_in = 604800,
             lr_user = \<lparr>lu_id = du_id u, lu_email = du_email u, lu_name = du_name u,
                        lu_role = du_role u\<rparr>\<rparr>)"
  by (simp add: AuthService_login_def Let_def split: option.split)

text \<open>
  C5. \<open>login\<close> succeeds exactly when some credential record matches both the email and
  the password exactly. On success the access token is signed over the claims
  \<open>{email, sub = id, role}\<close> of the matching record, the token type is \<open>Bearer\<close>, the
  expiry is 7 days (604800 seconds), and the identity snapshot holds the record's id,
  email, name and role: the response type has no field for the secret, and the secret is
  none of the strings of the response. On any mismatch \<open>login\<close> fails with
  \<open>UnauthorizedException\<close>, a result that carries no token field.
\<close>

theorem C5_login:
  fixes dto :: LoginDto
  shows
    "((\<exists>r. AuthService_login sign dto = Inr r) \<longleftrightarrow>
        (\<exists>u\<in>set demoUsers. du_email u = ld_email dto \<and> du_password u = ld_password dto)) \<and>
     ((\<forall>u\<in>set demoUsers. \<not> (du_email u = ld_email dto \<and> du_password u = ld_password dto)) \<longrightarrow>
        AuthService_login sign dto = Inl (UnauthorizedException ''Invalid credentials'')) \<and>
     (\<forall>r. AuthService_login sign dto = Inr r \<longrightarrow>
        (\<exists>u\<in>set demoUsers. du_email u = ld_email dto \<and> du_password u = ld_password dto \<and>
           lr_access_token r =
             sign \<lparr>jp_email = du_email u, jp_sub = du_id u, jp_role = du_role u\<rparr> \<and>
           lr_token_type r = ''Bearer'' \<and>
           lr_expires_in r = 7 * 24 * 60 * 60 \<and>
           lr_user r = \<lparr>lu_id = du_id u, lu_email = du_email u, lu_name = du_name u,
                         lu_role = du_role u\<rparr> \<and>
           du_password u \<notin> {lr_token_type r, lu_email (lr_user r), lu_name (lr_user r),
                              lu_role (lr_user r)}))"
proof -
  let ?P = "\<lambda>u. du_email u = ld_email dto \<and> du_password u = ld_password dto"
  have secret: "\<forall>u\<in>set demoUsers.
      du_password u \<notin> {''Bearer'', du_email u, du_name u, du_role u}"
    by (simp add: demoUsers_def)
  show ?thesis
  proof (cases "find ?P demoUsers")
    case None
    then have no: "\<forall>u\<in>set demoUsers. \<not> ?P u" by (simp add: find_None_iff)
    from None AuthService_login_cases [where dto = dto and sign = sign]
    have "AuthService_login sign dto = Inl (UnauthorizedException ''Invalid credentials'')"
      by simp
    with no show ?thesis by auto
  next
    case (Some u)
    then have u: "u \<in> set demoUsers" "?P u"
      by (auto simp: find_Some_iff)
    from Some AuthService_login_cases [where dto = dto and sign = sign]
    have r: "AuthService_login sign dto =
        Inr \<lparr>lr_access_token = sign \<lparr>jp_email = du_email u, jp_sub = du_id u, jp_role = du_role u\<rparr>,
             lr_token_type = ''Bearer'', lr_expires_in = 604800,
             lr_user = \<lparr>lu_id = du_id u, lu_email = du_email u, lu_name = du_name u,
                        lu_role = du_role u\<rparr>\<rparr>"
      by simp
    from secret u(1) have "du_password u \<notin> {''Bearer'', du_email u, du_name u, du_role u}"
      by blast
    with u r show ?thesis by auto
  qed
qed

theorem C5_login_witness:
  "\<forall>sign.
     AuthService_login sign \<lparr>ld_email = ''user@example.com'', ld_password = ''password123''\<rparr> =
       Inr \<lparr>lr_access_token =
              sign \<lparr>jp_email = ''user@example.com'', jp_sub = 1, jp_role = ''student''\<rparr>,
            lr_token_type = ''Bearer'', lr_expires_in = 604800,
            lr_user = \<lparr>lu_id = 1, lu_email = ''user@example.com'', lu_name = ''John Doe'',
                       lu_role = ''student''\<rparr>\<rparr> \<and>
     AuthService_login sign \<lparr>ld_email = ''user@example.com'', ld_password = ''wrong''\<rparr> =
       Inl (UnauthorizedException ''Invalid credentials'')"
proof
  fix sign :: "JwtPayload \<Rightarrow> string"
  let ?ok = "\<lparr>ld_email = ''user@example.com'', ld_password = ''password123''\<rparr>"
  let ?bad = "\<lparr>ld_email = ''user@example.com'', ld_password = ''wrong''\<rparr>"
  have wrong: "\<forall>u\<in>set demoUsers.
      \<not> (du_email u = ld_email ?bad \<and> du_password u = ld_password ?bad)"
    by (simp add: demoUsers_def)
  have match: "\<exists>u\<in>set demoUsers. du_email u = ld_email ?ok \<and> du_password u = ld_password ?ok"
    by (simp add: demoUsers_def)
  have one: "\<forall>u\<in>set demoUsers. du_email u = ld_email ?ok \<and> du_password u = ld_password ?ok \<longrightarrow>
      du_email u = ''user@example.com'' \<and> du_id u = 1 \<and> du_role u = ''student'' \<and>
      du_name u = ''John Doe''"
    by (simp add: demoUsers_def)
  from C5_login [where sign = sign and dto = ?ok] match
  obtain r where r: "AuthService_login sign ?ok = Inr r" by blast
  with C5_login [where sign = sign and dto = ?ok] one
  have "lr_access_token r =
          sign \<lparr>jp_email = ''user@example.com'', jp_sub = 1, jp_role = ''student''\<rparr> \<and>
        lr_token_type r = ''Bearer'' \<and> lr_expires_in r = 604800 \<and>
        lr_user r = \<lparr>lu_id = 1, lu_email = ''user@example.com'', lu_name = ''John Doe'',
                      lu_role = ''student''\<rparr>"
    by fastforce
  with r have right: "AuthService_login sign ?ok =
       Inr \<lparr>lr_access_token =
              sign \<lparr>jp_email = ''user@example.com'', jp_sub = 1, jp_role = ''student''\<rparr>,
            lr_token_type = ''Bearer'', lr_expires_in = 604800,
            lr_user = \<lparr>lu_id = 1, lu_email = ''user@example.com'', lu_name = ''John Doe'',
                       lu_role = ''student''\<rparr>\<rparr>"
    by (cases r) simp
  from C5_login [where sign = sign and dto = ?bad] wrong
  have "AuthService_login sign ?bad = Inl (UnauthorizedException ''Invalid credentials'')"
    by blast
  with right show "AuthService_login sign ?ok =
       Inr \<lparr>lr_access_token =
              sign \<lparr>jp_email = ''user@example.com'', jp_sub = 1, jp_role = ''student''\<rparr>,
            lr_token_type = ''Bearer'', lr_expires_in = 604800,
            lr_user = \<lparr>lu_id = 1, lu_email = ''user@example.com'', lu_name = ''John Doe'',
                       lu_role = ''student''\<rparr>\<rparr> \<and>
     AuthService_login sign ?bad = Inl (UnauthorizedException ''Invalid credentials'')"
    by simp
qed

section \<open>Course creation\<close>

text \<open>
  C7. For every course creation draft, whatever other properties (such as a \<open>status\<close>) the
  draft object carries, the created course has status \<open>draft\<close>, rating 0, no enrolled
  student, and the next sequential identifier: the identifier is the store's next-id
  counter, which the creation advances by one, and the course is appended to the store.
\<close>

theorem C7_course_created_as_draft:
  fixes draft :: "'a CreateCourseDto_scheme"
  shows
    "c_status (fst (CoursesService_create s draft t1 t2)) = Val DRAFT \<and>
     c_rating (fst (CoursesService_create s draft t1 t2)) = 0 \<and>
     c_enrolledStudents (fst (CoursesService_create s draft t1 t2)) = 0 \<and>
     c_id (fst (CoursesService_create s draft t1 t2)) = c_nextId s \<and>
     c_nextId (snd (CoursesService_create s draft t1 t2)) = c_nextId s + 1 \<and>
     courses (snd (CoursesService_create s draft t1 t2)) =
       courses s @ [fst (CoursesService_create s draft t1 t2)]"
  by (simp add: CoursesService_create_def Let_def)

text \<open>
  The scenario of the specification on a new service: the draft \<open>X\<close>, here with
  \<open>status = published\<close>, is created as a draft with identifier 4, and the next one gets 5.
\<close>

theorem C7_course_created_as_draft_witness:
  "c_status (fst (CoursesService_create CoursesService_new draft_X_published 5 6)) = Val DRAFT \<and>
   c_rating (fst (CoursesService_create CoursesService_new draft_X_published 5 6)) = 0 \<and>
   c_enrolledStudents (fst (CoursesService_create CoursesService_new draft_X_published 5 6)) = 0 \<and>
   c_id (fst (CoursesService_create CoursesService_new draft_X_published 5 6)) = 4 \<and>
   c_id (fst (CoursesService_create
           (snd (CoursesService_create CoursesService_new draft_X_published 5 6)) draft_X 7 8)) = 5"
  using C7_course_created_as_draft [of CoursesService_new draft_X_published 5 6]
    C7_course_created_as_draft
      [of "snd (CoursesService_create CoursesService_new draft_X_published 5 6)" draft_X 7 8]
  by (simp add: CoursesService_new_def)

text \<open>
  C10. For every course creation draft, the instructor snapshot stored on the created
  course has the name \<open>Jane Smith\<close> and the email \<open>instructor@lms.com\<close> whatever
  \<open>instructorId\<close> is supplied; its identifier is the supplied \<open>instructorId\<close>, and 2 when
  \<open>instructorId\<close> is absent or 0. \<open>CoursesService.create\<close> has no access to the users
  store: the snapshot is a function of the draft alone.
\<close>

theorem C10_instructor_snapshot:
  fixes draft :: "'a CreateCourseDto_scheme"
  shows
    "c_instructor (fst (CoursesService_create s draft t1 t2)) =
       \<lparr>i_id = (case cc_instructorId draft of
                  None \<Rightarrow> 2
                | Some n \<Rightarrow> if n = 0 then 2 else n),
        i_name = ''Jane Smith'', i_email = ''instructor@lms.com''\<rparr>"
  by (simp add: CoursesService_create_def Let_def js_or_number_def)


text \<open>
  With the identifier of the seeded student Bob Johnson as \<open>instructorId\<close>, the snapshot
  still names Jane Smith; without an \<open>instructorId\<close> the identifier is 2.
\<close>

theorem C10_instructor_snapshot_witness:
  "c_instructor (fst (CoursesService_create CoursesService_new draft_X_published 5 6)) =
     \<lparr>i_id = 3, i_name = ''Jane Smith'', i_email = ''instructor@lms.com''\<rparr> \<and>
   c_instructor (fst (CoursesService_create CoursesService_new draft_X 5 6)) =
     \<lparr>i_id = 2, i_name = ''Jane Smith'', i_email = ''instructor@lms.com''\<rparr> \<and>
   c_instructor (fst (CoursesService_create CoursesService_new
       (draft_X\<lparr>cc_instructorId := Some 0\<rparr>) 5 6)) =
     \<lparr>i_id = 2, i_name = ''Jane Smith'', i_email = ''instructor@lms.com''\<rparr> \<and>
   map_option u_fullName (find (\<lambda>u. u_id u = 3) (users UsersService_new)) = Some ''Bob Johnson''"
  using C10_instructor_snapshot [of CoursesService_new draft_X_published 5 6]
    C10_instructor_snapshot [of CoursesService_new draft_X 5 6]
    C10_instructor_snapshot [of CoursesService_new "draft_X\<lparr>cc_instructorId := Some 0\<rparr>" 5 6]
  by (simp add: draft_X_def draft_X_published_def eval_users)

section \<open>Update: merge of the patch\<close>













section \<open>The derived full name\<close>





section \<open>Validation of the listing parameters\<close>



















section \<open>Filters are conjunctive and only narrow the result\<close>













section \<open>Absent identifiers and deletion\<close>

lemma set_splice1: "set (splice1 xs k) \<subseteq> set xs"
  using set_take_subset [of k xs] set_drop_subset [of "Suc k" xs]
  by (auto simp: splice1_def)

lemma map_splice1: "map f (splice1 xs k) = splice1 (map f xs) k"
  by (simp add: splice1_def take_map drop_map)

lemma distinct_splice1:
  assumes "distinct xs" "k < length xs"
  shows "distinct (splice1 xs k)" and "xs ! k \<notin> set (splice1 xs k)"
proof -
  from assms(2) have "xs = take k xs @ xs ! k # drop (Suc k) xs"
    by (rule id_take_nth_drop)
  with assms(1) have "distinct (take k xs @ xs ! k # drop (Suc k) xs)" by simp
  then show "distinct (splice1 xs k)" and "xs ! k \<notin> set (splice1 xs k)"
    by (auto simp: splice1_def)
qed

lemma map_update_same: "f v = f (xs ! k) \<Longrightarrow> k < length xs \<Longrightarrow> map f (xs[k := v]) = map f xs"
  by (simp add: map_update list_update_same_conv)

lemma ids_inv_append: "ids_inv ids n \<Longrightarrow> ids_inv (ids @ [n]) (n + 1)"
  by (auto simp: ids_inv_def)

lemma ids_inv_splice1: "ids_inv ids n \<Longrightarrow> k < length ids \<Longrightarrow> ids_inv (splice1 ids k) n"
  using set_splice1 [of ids k] distinct_splice1(1) [of ids k]
  by (auto simp: ids_inv_def)

lemma id_gone_after_splice1:
  "ids_inv ids n \<Longrightarrow> k < length ids \<Longrightarrow> id_gone (ids ! k) (splice1 ids k) n"
  using distinct_splice1(2) [of ids k]
  by (auto simp: ids_inv_def id_gone_def)

lemma id_gone_append: "id_gone j ids n \<Longrightarrow> id_gone j (ids @ [n]) (n + 1)"
  by (auto simp: id_gone_def)

lemma id_gone_splice1: "id_gone j ids n \<Longrightarrow> id_gone j (splice1 ids k) n"
  using set_splice1 [of ids k] by (auto simp: id_gone_def)

text \<open>The effect of each request on the identifiers of the users store.\<close>

lemma UsersService_create_ids:
  fixes d :: "'a CreateUserDto_scheme"
  shows "snd (UsersService_create s d t1 t2) = s \<or>
     (map u_id (users (snd (UsersService_create s d t1 t2))) = map u_id (users s) @ [u_nextId s] \<and>
      u_nextId (snd (UsersService_create s d t1 t2)) = u_nextId s + 1)"
  by (simp add: UsersService_create_def Let_def split: option.split)

lemma UsersController_update_ids:
  "map u_id (users (snd (UsersController_update s i b now))) = map u_id (users s) \<and>
   u_nextId (snd (UsersController_update s i b now)) = u_nextId s"
proof (cases "UpdateUserDto_whitelisted b \<and> findIndex (\<lambda>u. u_id u = i) (users s) \<noteq> - 1")
  case True
  then have k: "nat (findIndex (\<lambda>u. u_id u = i) (users s)) < length (users s)"
    using findIndex_found [of "\<lambda>u. u_id u = i" "users s"] by simp
  from True have "pu_id b = None" by (simp add: UpdateUserDto_whitelisted_def)
  with True k show ?thesis
    by (simp add: UsersController_update_def UsersService_update_def Let_def spread_def
          map_update_same)
next
  case False
  then show ?thesis
    by (auto simp: UsersController_update_def UsersService_update_def Let_def)
qed

lemma UsersService_remove_ids:
  "(UsersService_remove s i = (Inl (NotFoundException ''User'' i), s) \<and>
      i \<notin> set (map u_id (users s))) \<or>
   (\<exists>k < length (users s). map u_id (users s) ! k = i \<and>
      UsersService_remove s i = (Inr (), s\<lparr>users := splice1 (users s) k\<rparr>))"
proof (cases "findIndex (\<lambda>u. u_id u = i) (users s) = - 1")
  case True
  then show ?thesis
    by (auto simp: UsersService_remove_def findIndex_none_iff)
next
  case False
  from findIndex_found [OF False] False show ?thesis
    by (auto simp: UsersService_remove_def Let_def)
qed

lemma users_inv_new: "users_inv UsersService_new"
  by (simp add: users_inv_def ids_inv_def eval_users)

lemma users_handle_inv: "users_inv s \<Longrightarrow> users_inv (users_handle s r)"
proof (cases r)
  case (PostUser d t1 t2)
  assume "users_inv s"
  with UsersService_create_ids [of s d t1 t2] PostUser show ?thesis
    by (auto simp: users_inv_def dest: ids_inv_append)
next
  case (PatchUser i b now)
  assume "users_inv s"
  with UsersController_update_ids [of s i b now] PatchUser show ?thesis
    by (simp add: users_inv_def)
next
  case (DeleteUser i)
  assume "users_inv s"
  with UsersService_remove_ids [of s i] DeleteUser show ?thesis
    by (auto simp: users_inv_def map_splice1 dest: ids_inv_splice1)
qed

lemma users_handle_gone: "users_gone j s \<Longrightarrow> users_gone j (users_handle s r)"
proof (cases r)
  case (PostUser d t1 t2)
  assume "users_gone j s"
  with UsersService_create_ids [of s d t1 t2] PostUser show ?thesis
    by (auto simp: users_gone_def dest: id_gone_append)
next
  case (PatchUser i b now)
  assume "users_gone j s"
  with UsersController_update_ids [of s i b now] PatchUser show ?thesis
    by (simp add: users_gone_def)
next
  case (DeleteUser i)
  assume "users_gone j s"
  with UsersService_remove_ids [of s i] DeleteUser show ?thesis
    by (auto simp: users_gone_def map_splice1 dest: id_gone_splice1)
qed

lemma users_run_inv: "users_inv s \<Longrightarrow> users_inv (users_run s rs)"
  unfolding users_run_def
  by (induction rs arbitrary: s) (simp_all add: users_handle_inv)

lemma users_run_gone: "users_gone j s \<Longrightarrow> users_gone j (users_run s rs)"
  unfolding users_run_def
  by (induction rs arbitrary: s) (simp_all add: users_handle_gone)

lemma users_remove_gone:
  assumes "users_inv s" and "UsersService_remove s j = (Inr (), s')"
  shows "users_gone j s'"
proof -
  from UsersService_remove_ids [of s j] assms(2)
  obtain k where k: "k < length (users s)" "map u_id (users s) ! k = j"
      "s' = s\<lparr>users := splice1 (users s) k\<rparr>"
    by auto
  from assms(1) k(1) have "id_gone (map u_id (users s) ! k) (splice1 (map u_id (users s)) k) (u_nextId s)"
    using id_gone_after_splice1 [of "map u_id (users s)" "u_nextId s" k]
    by (simp add: users_inv_def)
  with k show ?thesis by (simp add: users_gone_def map_splice1)
qed

lemma users_absent:
  assumes "i \<notin> u_id ` set (users s)"
  shows "UsersService_findOne s i = Inl (NotFoundException ''User'' i)"
    and "UsersService_update s i p now = (Inl (NotFoundException ''User'' i), s)"
    and "UsersService_remove s i = (Inl (NotFoundException ''User'' i), s)"
proof -
  from assms have n: "\<forall>u\<in>set (users s). \<not> u_id u = i" by auto
  then have "find (\<lambda>u. u_id u = i) (users s) = None" by (simp add: find_None_iff)
  then show "UsersService_findOne s i = Inl (NotFoundException ''User'' i)"
    by (simp add: UsersService_findOne_def)
  from n have "findIndex (\<lambda>u. u_id u = i) (users s) = - 1" by (simp add: findIndex_none_iff)
  then show "UsersService_update s i p now = (Inl (NotFoundException ''User'' i), s)"
    and "UsersService_remove s i = (Inl (NotFoundException ''User'' i), s)"
    by (simp_all add: UsersService_update_def UsersService_remove_def)
qed

lemma users_gone_create:
  fixes d :: "'a CreateUserDto_scheme"
  assumes "users_gone j s" and "UsersService_create s d t1 t2 = (Inr u, s')"
  shows "u_id u \<noteq> j"
  using assms
  by (auto simp: users_gone_def id_gone_def UsersService_create_def Let_def split: option.splits)

lemma users_handle_nextId: "u_nextId s \<le> u_nextId (users_handle s r)"
proof (cases r)
  case (PostUser d t1 t2)
  with UsersService_create_ids [of s d t1 t2] show ?thesis by auto
next
  case (PatchUser i b now)
  with UsersController_update_ids [of s i b now] show ?thesis by simp
next
  case (DeleteUser i)
  with UsersService_remove_ids [of s i] show ?thesis by auto
qed

text \<open>The effect of each request on the identifiers of the courses store.\<close>

lemma CoursesService_create_ids:
  fixes d :: "'a CreateCourseDto_scheme"
  shows "snd (CoursesService_create s d t1 t2) = s \<or>
     (map c_id (courses (snd (CoursesService_create s d t1 t2))) = map c_id (courses s) @ [c_nextId s] \<and>
      c_nextId (snd (CoursesService_create s d t1 t2)) = c_nextId s + 1)"
  by (simp add: CoursesService_create_def Let_def)

lemma CoursesController_update_ids:
  "map c_id (courses (snd (CoursesController_update s i b now))) = map c_id (courses s) \<and>
   c_nextId (snd (CoursesController_update s i b now)) = c_nextId s"
proof (cases "UpdateCourseDto_valid b \<and> findIndex (\<lambda>c. c_id c = i) (courses s) \<noteq> - 1")
  case True
  then have k: "nat (findIndex (\<lambda>c. c_id c = i) (courses s)) < length (courses s)"
    using findIndex_found [of "\<lambda>c. c_id c = i" "courses s"] by simp
  from True have "pc_id b = None"
    by (simp add: UpdateCourseDto_valid_def UpdateCourseDto_whitelisted_def)
  with True k show ?thesis
    by (simp add: CoursesController_update_def CoursesService_update_def Let_def spread_def
          map_update_same)
next
  case False
  then show ?thesis
    by (auto simp: CoursesController_update_def CoursesService_update_def Let_def)
qed

lemma CoursesService_remove_ids:
  "(CoursesService_remove s i = (Inl (NotFoundException ''Course'' i), s) \<and>
      i \<notin> set (map c_id (courses s))) \<or>
   (\<exists>k < length (courses s). map c_id (courses s) ! k = i \<and>
      CoursesService_remove s i = (Inr (), s\<lparr>courses := splice1 (courses s) k\<rparr>))"
proof (cases "findIndex (\<lambda>c. c_id c = i) (courses s) = - 1")
  case True
  then show ?thesis
    by (auto simp: CoursesService_remove_def findIndex_none_iff)
next
  case False
  from findIndex_found [OF False] False show ?thesis
    by (auto simp: CoursesService_remove_def Let_def)
qed

lemma courses_inv_new: "courses_inv CoursesService_new"
  by (simp add: courses_inv_def ids_inv_def eval_courses)

lemma courses_handle_inv: "courses_inv s \<Longrightarrow> courses_inv (courses_handle s r)"
proof (cases r)
  case (PostCourse d t1 t2)
  assume "courses_inv s"
  with CoursesService_create_ids [of s d t1 t2] PostCourse show ?thesis
    by (auto simp: courses_inv_def dest: ids_inv_append)
next
  case (PatchCourse i b now)
  assume "courses_inv s"
  with CoursesController_update_ids [of s i b now] PatchCourse show ?thesis
    by (simp add: courses_inv_def)
next
  case (DeleteCourse i)
  assume "courses_inv s"
  with CoursesService_remove_ids [of s i] DeleteCourse show ?thesis
    by (auto simp: courses_inv_def map_splice1 dest: ids_inv_splice1)
qed

lemma courses_handle_gone: "courses_gone j s \<Longrightarrow> courses_gone j (courses_handle s r)"
proof (cases r)
  case (PostCourse d t1 t2)
  assume "courses_gone j s"
  with CoursesService_create_ids [of s d t1 t2] PostCourse show ?thesis
    by (auto simp: courses_gone_def dest: id_gone_append)
next
  case (PatchCourse i b now)
  assume "courses_gone j s"
  with CoursesController_update_ids [of s i b now] PatchCourse show ?thesis
    by (simp add: courses_gone_def)
next
  case (DeleteCourse i)
  assume "courses_gone j s"
  with CoursesService_remove_ids [of s i] DeleteCourse show ?thesis
    by (auto simp: courses_gone_def map_splice1 dest: id_gone_splice1)
qed

lemma courses_run_inv: "courses_inv s \<Longrightarrow> courses_inv (courses_run s rs)"
  unfolding courses_run_def
  by (induction rs arbitrary: s) (simp_all add: courses_handle_inv)

lemma courses_run_gone: "courses_gone j s \<Longrightarrow> courses_gone j (courses_run s rs)"
  unfolding courses_run_def
  by (induction rs arbitrary: s) (simp_all add: courses_handle_gone)

lemma courses_remove_gone:
  assumes "courses_inv s" and "CoursesService_remove s j = (Inr (), s')"
  shows "courses_gone j s'"
proof -
  from CoursesService_remove_ids [of s j] assms(2)
  obtain k where k: "k < length (courses s)" "map c_id (courses s) ! k = j"
      "s' = s\<lparr>courses := splice1 (courses s) k\<rparr>"
    by auto
  from assms(1) k(1) have "id_gone (map c_id (courses s) ! k) (splice1 (map c_id (courses s)) k) (c_nextId s)"
    using id_gone_after_splice1 [of "map c_id (courses s)" "c_nextId s" k]
    by (simp add: courses_inv_def)
  with k show ?thesis by (simp add: courses_gone_def map_splice1)
qed

lemma courses_absent:
  assumes "i \<notin> c_id ` set (courses s)"
  shows "CoursesService_findOne s i = Inl (NotFoundException ''Course'' i)"
    and "CoursesService_update s i p now = (Inl (NotFoundException ''Course'' i), s)"
    and "CoursesService_remove s i = (Inl (NotFoundException ''Course'' i), s)"
proof -
  from assms have n: "\<forall>c\<in>set (courses s). \<not> c_id c = i" by auto
  then have "find (\<lambda>c. c_id c = i) (courses s) = None" by (simp add: find_None_iff)
  then show "CoursesService_findOne s i = Inl (NotFoundException ''Course'' i)"
    by (simp add: CoursesService_findOne_def)
  from n have "findIndex (\<lambda>c. c_id c = i) (courses s) = - 1" by (simp add: findIndex_none_iff)
  then show "CoursesService_update s i p now = (Inl (NotFoundException ''Course'' i), s)"
    and "CoursesService_remove s i = (Inl (NotFoundException ''Course'' i), s)"
    by (simp_all add: CoursesService_update_def CoursesService_remove_def)
qed

lemma courses_gone_create:
  fixes d :: "'a CreateCourseDto_scheme"
  assumes "courses_gone j s" and "CoursesService_create s d t1 t2 = (c, s')"
  shows "c_id c \<noteq> j"
  using assms
  by (auto simp: courses_gone_def id_gone_def CoursesService_create_def Let_def)

lemma courses_handle_nextId: "c_nextId s \<le> c_nextId (courses_handle s r)"
proof (cases r)
  case (PostCourse d t1 t2)
  with CoursesService_create_ids [of s d t1 t2] show ?thesis by auto
next
  case (PatchCourse i b now)
  with CoursesController_update_ids [of s i b now] show ?thesis by simp
next
  case (DeleteCourse i)
  with CoursesService_remove_ids [of s i] show ?thesis by auto
qed

text \<open>
  C6. \<open>findOne\<close>, \<open>update\<close> and \<open>remove\<close> on an identifier that is not in the store each
  fail with \<open>NotFoundException\<close> and leave the store as it was. In every state reached
  from a new service by requests, after a successful \<open>remove\<close> of an identifier every
  later \<open>findOne\<close> of it fails with \<open>NotFoundException\<close>, whatever requests come in
  between, and no later \<open>create\<close> assigns it again: no request decrements the next-id
  counter. The same holds for courses.
\<close>

theorem C6_not_found_and_deletion_final:
  fixes s :: UsersService and cs :: CoursesService
    and d :: CreateUserDto and cd :: CreateCourseDto
  shows
    "(i \<notin> u_id ` set (users s) \<longrightarrow>
        UsersService_findOne s i = Inl (NotFoundException ''User'' i) \<and>
        UsersService_update s i p now = (Inl (NotFoundException ''User'' i), s) \<and>
        UsersService_remove s i = (Inl (NotFoundException ''User'' i), s)) \<and>
     (UsersService_remove (users_run UsersService_new rs0) j = (Inr (), s1) \<longrightarrow>
        UsersService_findOne (users_run s1 rs1) j = Inl (NotFoundException ''User'' j) \<and>
        (\<forall>u s2. UsersService_create (users_run s1 rs1) d t1 t2 = (Inr u, s2) \<longrightarrow> u_id u \<noteq> j)) \<and>
     u_nextId s \<le> u_nextId (users_handle s r) \<and>
     (i \<notin> c_id ` set (courses cs) \<longrightarrow>
        CoursesService_findOne cs i = Inl (NotFoundException ''Course'' i) \<and>
        CoursesService_update cs i cp now = (Inl (NotFoundException ''Course'' i), cs) \<and>
        CoursesService_remove cs i = (Inl (NotFoundException ''Course'' i), cs)) \<and>
     (CoursesService_remove (courses_run CoursesService_new crs0) j = (Inr (), cs1) \<longrightarrow>
        CoursesService_findOne (courses_run cs1 crs1) j = Inl (NotFoundException ''Course'' j) \<and>
        c_id (fst (CoursesService_create (courses_run cs1 crs1) cd t1 t2)) \<noteq> j) \<and>
     c_nextId cs \<le> c_nextId (courses_handle cs cr)"
proof -
  have u1: "UsersService_findOne (users_run s1 rs1) j = Inl (NotFoundException ''User'' j) \<and>
        (\<forall>u s2. UsersService_create (users_run s1 rs1) d t1 t2 = (Inr u, s2) \<longrightarrow> u_id u \<noteq> j)"
    if rm: "UsersService_remove (users_run UsersService_new rs0) j = (Inr (), s1)"
  proof -
    have "users_inv (users_run UsersService_new rs0)"
      by (rule users_run_inv [OF users_inv_new])
    from users_remove_gone [OF this rm] have "users_gone j (users_run s1 rs1)"
      by (rule users_run_gone)
    then show ?thesis
      using users_absent(1) [of j "users_run s1 rs1"] users_gone_create [of j "users_run s1 rs1" d t1 t2]
      by (auto simp: users_gone_def id_gone_def)
  qed
  have c1: "CoursesService_findOne (courses_run cs1 crs1) j = Inl (NotFoundException ''Course'' j) \<and>
        c_id (fst (CoursesService_create (courses_run cs1 crs1) cd t1 t2)) \<noteq> j"
    if rm: "CoursesService_remove (courses_run CoursesService_new crs0) j = (Inr (), cs1)"
  proof -
    have "courses_inv (courses_run CoursesService_new crs0)"
      by (rule courses_run_inv [OF courses_inv_new])
    from courses_remove_gone [OF this rm] have g: "courses_gone j (courses_run cs1 crs1)"
      by (rule courses_run_gone)
    have "c_id (fst (CoursesService_create (courses_run cs1 crs1) cd t1 t2)) \<noteq> j"
      by (rule courses_gone_create [OF g, of cd t1 t2]) (rule surjective_pairing)
    with g show ?thesis
      using courses_absent(1) [of j "courses_run cs1 crs1"]
      by (auto simp: courses_gone_def id_gone_def)
  qed
  from u1 c1 users_absent(1) [of i s] users_absent(2) [of i s p now] users_absent(3) [of i s]
    courses_absent(1) [of i cs] courses_absent(2) [of i cs cp now] courses_absent(3) [of i cs]
    users_handle_nextId [of s r] courses_handle_nextId [of cs cr]
  show ?thesis by blast
qed

text \<open>
  On the seeded stores: identifier 7 is absent; user 2 is removed after one creation and
  stays absent through a deletion, a patch and a creation; course 3 is removed and the
  next creation does not get its identifier.
\<close>

theorem C6_not_found_and_deletion_final_witness:
  "UsersService_findOne UsersService_new 7 = Inl (NotFoundException ''User'' 7) \<and>
   UsersService_update UsersService_new 7 patch_phone 9 =
     (Inl (NotFoundException ''User'' 7), UsersService_new) \<and>
   UsersService_remove UsersService_new 7 =
     (Inl (NotFoundException ''User'' 7), UsersService_new) \<and>
   UsersService_findOne
     (users_run (snd (UsersService_remove (users_run UsersService_new [PostUser ann 5 6]) 2))
        [DeleteUser 1, PatchUser 3 patch_phone 9, PostUser admin_again 10 11]) 2 =
     Inl (NotFoundException ''User'' 2) \<and>
   CoursesService_findOne CoursesService_new 7 = Inl (NotFoundException ''Course'' 7) \<and>
   CoursesService_update CoursesService_new 7 patch_archive 9 =
     (Inl (NotFoundException ''Course'' 7), CoursesService_new) \<and>
   CoursesService_remove CoursesService_new 7 =
     (Inl (NotFoundException ''Course'' 7), CoursesService_new) \<and>
   CoursesService_findOne
     (courses_run (snd (CoursesService_remove (courses_run CoursesService_new []) 3))
        [PostCourse draft_X 5 6]) 3 =
     Inl (NotFoundException ''Course'' 3) \<and>
   c_id (fst (CoursesService_create
     (courses_run (snd (CoursesService_remove (courses_run CoursesService_new []) 3))
        [PostCourse draft_X 5 6]) draft_X 7 8)) \<noteq> 3"
proof -
  have absent: "7 \<notin> u_id ` set (users UsersService_new)"
    "7 \<notin> c_id ` set (courses CoursesService_new)"
    by (simp_all add: eval_users eval_courses)
  have "fst (UsersService_remove (users_run UsersService_new [PostUser ann 5 6]) 2) = Inr ()"
    by code_simp
  then have ru: "UsersService_remove (users_run UsersService_new [PostUser ann 5 6]) 2 =
      (Inr (), snd (UsersService_remove (users_run UsersService_new [PostUser ann 5 6]) 2))"
    by (simp add: prod_eq_iff)
  have "fst (CoursesService_remove (courses_run CoursesService_new []) 3) = Inr ()"
    by code_simp
  then have rc: "CoursesService_remove (courses_run CoursesService_new []) 3 =
      (Inr (), snd (CoursesService_remove (courses_run CoursesService_new []) 3))"
    by (simp add: prod_eq_iff)
  from C6_not_found_and_deletion_final [where i = 7 and s = UsersService_new and p = patch_phone
      and now = 9 and ?rs0.0 = "[PostUser ann 5 6]" and j = 2
      and ?s1.0 = "snd (UsersService_remove (users_run UsersService_new [PostUser ann 5 6]) 2)"
      and ?rs1.0 = "[DeleteUser 1, PatchUser 3 patch_phone 9, PostUser admin_again 10 11]"
      and cs = CoursesService_new and cp = patch_archive and ?crs0.0 = "[]"
      and ?cs1.0 = "snd (CoursesService_remove (courses_run CoursesService_new []) 3)"
      and ?crs1.0 = "[PostCourse draft_X 5 6]" and cd = draft_X and ?t1.0 = 7 and ?t2.0 = 8]
    absent ru
  have users: "UsersService_findOne UsersService_new 7 = Inl (NotFoundException ''User'' 7)"
    "UsersService_update UsersService_new 7 patch_phone 9 =
       (Inl (NotFoundException ''User'' 7), UsersService_new)"
    "UsersService_remove UsersService_new 7 =
       (Inl (NotFoundException ''User'' 7), UsersService_new)"
    "UsersService_findOne
       (users_run (snd (UsersService_remove (users_run UsersService_new [PostUser ann 5 6]) 2))
          [DeleteUser 1, PatchUser 3 patch_phone 9, PostUser admin_again 10 11]) 2 =
       Inl (NotFoundException ''User'' 2)"
    by blast+
  from C6_not_found_and_deletion_final [where i = 7 and s = UsersService_new and p = patch_phone
      and now = 9 and ?rs0.0 = "[PostUser ann 5 6]" and j = 3
      and ?s1.0 = "snd (UsersService_remove (users_run UsersService_new [PostUser ann 5 6]) 2)"
      and ?rs1.0 = "[DeleteUser 1, PatchUser 3 patch_phone 9, PostUser admin_again 10 11]"
      and cs = CoursesService_new and cp = patch_archive and ?crs0.0 = "[]"
      and ?cs1.0 = "snd (CoursesService_remove (courses_run CoursesService_new []) 3)"
      and ?crs1.0 = "[PostCourse draft_X 5 6]" and cd = draft_X and ?t1.0 = 7 and ?t2.0 = 8]
    absent rc
  have courses: "CoursesService_findOne CoursesService_new 7 = Inl (NotFoundException ''Course'' 7)"
    "CoursesService_update CoursesService_new 7 patch_archive 9 =
       (Inl (NotFoundException ''Course'' 7), CoursesService_new)"
    "CoursesService_remove CoursesService_new 7 =
       (Inl (NotFoundException ''Course'' 7), CoursesService_new)"
    "CoursesService_findOne
       (courses_run (snd (CoursesService_remove (courses_run CoursesService_new []) 3))
          [PostCourse draft_X 5 6]) 3 =
       Inl (NotFoundException ''Course'' 3)"
    "c_id (fst (CoursesService_create
       (courses_run (snd (CoursesService_remove (courses_run CoursesService_new []) 3))
          [PostCourse draft_X 5 6]) draft_X 7 8)) \<noteq> 3"
    by blast+
  from users courses show ?thesis by blast
qed

end
